theory Spec2Isabelle
  imports Main "HOL-Library.Word"
begin

section \<open>The USP message model of \<^verbatim>\<open>uspmessages.h\<close>\<close>

text \<open>
  The header declares the messages the USP layer hands to its users: three scoped
  enumerations and a family of structs, most of them derived from \<^verbatim>\<open>JsonMsg\<close>.
  The structs have public fields, member initialisers for their defaults and
  constructors that only initialise fields: no constructor validates, throws or returns
  early, so every constructor is embedded as a total function into the struct's record.
  A struct is a record, a derived struct a record extension of its base, a constructor
  with a mem-initialiser list the base constructor's value extended by the new fields.
  Arguments taken by rvalue reference are embedded by value (what the moved-from
  argument holds afterwards is not part of the constructed message).
\<close>

subsection \<open>Basic types\<close>

text \<open>\<^verbatim>\<open>typedef uint64_t OffsetType; typedef uint64_t DurationType;\<close>\<close>

type_synonym OffsetType = "64 word"
type_synonym DurationType = "64 word"

text \<open>
  \<^verbatim>\<open>std::wstring\<close> is a sequence of \<^verbatim>\<open>wchar_t\<close> code units (taken as 32 bits wide;
  no property below depends on the width), \<^verbatim>\<open>std::string\<close> a sequence of bytes.
  \<^verbatim>\<open>const uint8_t*\<close> is an address, \<^verbatim>\<open>nullptr\<close> the address 0; \<^verbatim>\<open>size_t\<close> is taken as
  64 bits and \<^verbatim>\<open>int\<close> as 32 bits.
\<close>

type_synonym wchar_t = "32 word"
type_synonym wstring = "wchar_t list"
type_synonym uint8_ptr = "64 word"
type_synonym size_t = "64 word"

definition nullptr :: uint8_ptr where
  "nullptr = 0"

subsection \<open>Enumerations\<close>

text \<open>
  The three \<^verbatim>\<open>enum class\<close> declarations. Their enumerators are scoped in the source
  (\<^verbatim>\<open>RecognitionStatus::Success\<close>, \<^verbatim>\<open>TranslationStatus::Success\<close>) and are written
  qualified here as well.
\<close>

datatype RecognitionStatus =
    Success
  | NoMatch
  | InitialSilenceTimeout
  | InitialBabbleTimeout
  | Error
  | EndOfDictation
  | TooManyRequests
  | BadRequest
  | Forbidden
  | ServiceUnavailable
  | InvalidMessage

datatype TranslationStatus = Success | Error | InvalidMessage

datatype ErrorCode =
    AuthenticationError
  | BadRequest
  | TooManyRequests
  | Forbidden
  | ConnectionError
  | ServiceUnavailable
  | ServiceError
  | RuntimeError

text \<open>
  The underlying values of \<^verbatim>\<open>ErrorCode\<close>: the first enumerator is given the value 1,
  each later one is its predecessor plus one.
\<close>

fun ErrorCode_value :: "ErrorCode \<Rightarrow> int" where
  "ErrorCode_value ErrorCode.AuthenticationError = 1"
| "ErrorCode_value ErrorCode.BadRequest = 2"
| "ErrorCode_value ErrorCode.TooManyRequests = 3"
| "ErrorCode_value ErrorCode.Forbidden = 4"
| "ErrorCode_value ErrorCode.ConnectionError = 5"
| "ErrorCode_value ErrorCode.ServiceUnavailable = 6"
| "ErrorCode_value ErrorCode.ServiceError = 7"
| "ErrorCode_value ErrorCode.RuntimeError = 8"

text \<open>The enumerators of \<^verbatim>\<open>ErrorCode\<close> in declaration order, and their identifiers.\<close>

definition ErrorCode_enumerators :: "ErrorCode list" where
  "ErrorCode_enumerators =
     [ErrorCode.AuthenticationError, ErrorCode.BadRequest, ErrorCode.TooManyRequests,
      ErrorCode.Forbidden, ErrorCode.ConnectionError, ErrorCode.ServiceUnavailable,
      ErrorCode.ServiceError, ErrorCode.RuntimeError]"

fun ErrorCode_name :: "ErrorCode \<Rightarrow> string" where
  "ErrorCode_name ErrorCode.AuthenticationError = ''AuthenticationError''"
| "ErrorCode_name ErrorCode.BadRequest = ''BadRequest''"
| "ErrorCode_name ErrorCode.TooManyRequests = ''TooManyRequests''"
| "ErrorCode_name ErrorCode.Forbidden = ''Forbidden''"
| "ErrorCode_name ErrorCode.ConnectionError = ''ConnectionError''"
| "ErrorCode_name ErrorCode.ServiceUnavailable = ''ServiceUnavailable''"
| "ErrorCode_name ErrorCode.ServiceError = ''ServiceError''"
| "ErrorCode_name ErrorCode.RuntimeError = ''RuntimeError''"

subsection \<open>\<^verbatim>\<open>JsonMsg\<close> and the turn and speech-boundary messages\<close>

text \<open>
  \<^verbatim>\<open>struct JsonMsg { std::wstring json; ... }\<close> with a defaulted default constructor
  (the string is empty) and a protected constructor that moves \<^verbatim>\<open>content\<close> into
  \<^verbatim>\<open>json\<close>.
\<close>

record JsonMsg =
  json :: wstring

definition JsonMsg_default :: JsonMsg where
  "JsonMsg_default = \<lparr> json = [] \<rparr>"

definition JsonMsg_ctor :: "wstring \<Rightarrow> JsonMsg" where
  "JsonMsg_ctor content = \<lparr> json = content \<rparr>"

text \<open>\<^verbatim>\<open>SpeechStartDetectedMsg(content, offset) : JsonMsg(content), offset(offset)\<close>\<close>

record SpeechStartDetectedMsg = JsonMsg +
  offset :: OffsetType

definition SpeechStartDetectedMsg_ctor :: "wstring \<Rightarrow> OffsetType \<Rightarrow> SpeechStartDetectedMsg" where
  "SpeechStartDetectedMsg_ctor content offset' =
     JsonMsg.extend (JsonMsg_ctor content) (SpeechStartDetectedMsg.fields offset')"

text \<open>\<^verbatim>\<open>SpeechEndDetectedMsg(content, offset) : JsonMsg(content), offset(offset)\<close>\<close>

record SpeechEndDetectedMsg = JsonMsg +
  offset :: OffsetType

definition SpeechEndDetectedMsg_ctor :: "wstring \<Rightarrow> OffsetType \<Rightarrow> SpeechEndDetectedMsg" where
  "SpeechEndDetectedMsg_ctor content offset' =
     JsonMsg.extend (JsonMsg_ctor content) (SpeechEndDetectedMsg.fields offset')"

text \<open>\<^verbatim>\<open>TurnStartMsg(content, tag) : JsonMsg(content), contextServiceTag(tag)\<close>\<close>

record TurnStartMsg = JsonMsg +
  contextServiceTag :: string

definition TurnStartMsg_ctor :: "wstring \<Rightarrow> string \<Rightarrow> TurnStartMsg" where
  "TurnStartMsg_ctor content tag =
     JsonMsg.extend (JsonMsg_ctor content) (TurnStartMsg.fields tag)"

text \<open>
  \<^verbatim>\<open>struct TurnEndMsg : JsonMsg { TurnEndMsg() : JsonMsg(std::wstring()) {} };\<close>
  The struct adds no field to its base, and its only constructor takes no argument and
  passes an empty string to the base constructor.
\<close>

type_synonym TurnEndMsg = JsonMsg

definition TurnEndMsg_ctor :: TurnEndMsg where
  "TurnEndMsg_ctor = JsonMsg_ctor []"

subsection \<open>Speech messages\<close>

text \<open>
  \<^verbatim>\<open>struct SpeechMsg : JsonMsg { OffsetType offset{0}; DurationType duration{0}; }\<close>
  with a defaulted default constructor and
  \<^verbatim>\<open>SpeechMsg(content, offset, duration) : JsonMsg(content), offset(offset), duration(duration)\<close>.
\<close>

record SpeechMsg = JsonMsg +
  offset :: OffsetType
  duration :: DurationType

definition SpeechMsg_default :: SpeechMsg where
  "SpeechMsg_default = JsonMsg.extend JsonMsg_default (SpeechMsg.fields 0 0)"

definition SpeechMsg_ctor :: "wstring \<Rightarrow> OffsetType \<Rightarrow> DurationType \<Rightarrow> SpeechMsg" where
  "SpeechMsg_ctor content offset' duration' =
     JsonMsg.extend (JsonMsg_ctor content) (SpeechMsg.fields offset' duration')"

text \<open>
  \<^verbatim>\<open>SpeechHypothesisMsg(content, offset, duration, text) :
     SpeechMsg(content, offset, duration), text(text)\<close>
\<close>

record SpeechHypothesisMsg = SpeechMsg +
  "text" :: wstring

definition SpeechHypothesisMsg_ctor ::
  "wstring \<Rightarrow> OffsetType \<Rightarrow> DurationType \<Rightarrow> wstring \<Rightarrow> SpeechHypothesisMsg" where
  "SpeechHypothesisMsg_ctor content offset' duration' text' =
     SpeechMsg.extend (SpeechMsg_ctor content offset' duration')
       (SpeechHypothesisMsg.fields text')"

text \<open>
  \<^verbatim>\<open>SpeechFragmentMsg(content, offset, duration, text) :
     SpeechMsg(content, offset, duration), text(text)\<close>
\<close>

record SpeechFragmentMsg = SpeechMsg +
  "text" :: wstring

definition SpeechFragmentMsg_ctor ::
  "wstring \<Rightarrow> OffsetType \<Rightarrow> DurationType \<Rightarrow> wstring \<Rightarrow> SpeechFragmentMsg" where
  "SpeechFragmentMsg_ctor content offset' duration' text' =
     SpeechMsg.extend (SpeechMsg_ctor content offset' duration')
       (SpeechFragmentMsg.fields text')"

text \<open>
  \<^verbatim>\<open>struct SpeechPhraseMsg : SpeechMsg {
     RecognitionStatus recognitionStatus { RecognitionStatus::Error };
     std::wstring displayText; }\<close>
  with a defaulted default constructor and
  \<^verbatim>\<open>SpeechPhraseMsg(content, offset, duration, status, text) :
     SpeechMsg(content, offset, duration), recognitionStatus(status), displayText(text)\<close>.
\<close>

record SpeechPhraseMsg = SpeechMsg +
  recognitionStatus :: RecognitionStatus
  displayText :: wstring

definition SpeechPhraseMsg_default :: SpeechPhraseMsg where
  "SpeechPhraseMsg_default =
     SpeechMsg.extend SpeechMsg_default (SpeechPhraseMsg.fields RecognitionStatus.Error [])"

definition SpeechPhraseMsg_ctor ::
  "wstring \<Rightarrow> OffsetType \<Rightarrow> DurationType \<Rightarrow> RecognitionStatus \<Rightarrow> wstring \<Rightarrow> SpeechPhraseMsg" where
  "SpeechPhraseMsg_ctor content offset' duration' status text' =
     SpeechMsg.extend (SpeechMsg_ctor content offset' duration')
       (SpeechPhraseMsg.fields status text')"

subsection \<open>Translation messages\<close>

text \<open>
  \<^verbatim>\<open>struct TranslationResult {
     TranslationStatus translationStatus { TranslationStatus::Error };
     std::wstring failureReason;
     std::map<std::wstring, std::wstring> translations; }\<close>
  An aggregate with public fields and no constructor of its own: any combination of
  field values is a value of the struct. The default value has status Error, an empty
  failure reason and an empty map.
\<close>

record TranslationResult =
  translationStatus :: TranslationStatus
  failureReason :: wstring
  "translations" :: "wstring \<rightharpoonup> wstring"

definition TranslationResult_default :: TranslationResult where
  "TranslationResult_default =
     \<lparr> translationStatus = TranslationStatus.Error, failureReason = [],
       translations = Map.empty \<rparr>"

text \<open>
  \<^verbatim>\<open>TranslationHypothesisMsg(content, offset, duration, text, translation) :
     SpeechHypothesisMsg(content, offset, duration, text), translation(translation)\<close>
\<close>

record TranslationHypothesisMsg = SpeechHypothesisMsg +
  translation :: TranslationResult

definition TranslationHypothesisMsg_ctor ::
  "wstring \<Rightarrow> OffsetType \<Rightarrow> DurationType \<Rightarrow> wstring \<Rightarrow> TranslationResult
     \<Rightarrow> TranslationHypothesisMsg" where
  "TranslationHypothesisMsg_ctor content offset' duration' text' translation' =
     SpeechHypothesisMsg.extend (SpeechHypothesisMsg_ctor content offset' duration' text')
       (TranslationHypothesisMsg.fields translation')"

text \<open>
  \<^verbatim>\<open>struct TranslationPhraseMsg : TranslationHypothesisMsg {
     RecognitionStatus recognitionStatus; }\<close>
  The field has no member initialiser, and the struct's only constructor beside the
  implicit copy takes the status as an argument:
  \<^verbatim>\<open>TranslationPhraseMsg(content, offset, duration, text, translation, status) :
     TranslationHypothesisMsg(content, offset, duration, text, translation),
     recognitionStatus(status)\<close>
\<close>

record TranslationPhraseMsg = TranslationHypothesisMsg +
  recognitionStatus :: RecognitionStatus

definition TranslationPhraseMsg_ctor ::
  "wstring \<Rightarrow> OffsetType \<Rightarrow> DurationType \<Rightarrow> wstring \<Rightarrow> TranslationResult
     \<Rightarrow> RecognitionStatus \<Rightarrow> TranslationPhraseMsg" where
  "TranslationPhraseMsg_ctor content offset' duration' text' translation' status =
     TranslationHypothesisMsg.extend
       (TranslationHypothesisMsg_ctor content offset' duration' text' translation')
       (TranslationPhraseMsg.fields status)"

subsection \<open>Binary messages\<close>

text \<open>
  \<^verbatim>\<open>struct AudioOutputChunkMsg {
     int streamId { -1 }; const uint8_t* audioBuffer { nullptr }; size_t audioLength { 0 }; }\<close>
  and
  \<^verbatim>\<open>struct UserMsg {
     const std::string path; const std::string contentType;
     const uint8_t* buffer; size_t size; }\<close>
  Neither struct has a base.
\<close>

record AudioOutputChunkMsg =
  streamId :: "32 word"
  audioBuffer :: uint8_ptr
  audioLength :: size_t

definition AudioOutputChunkMsg_default :: AudioOutputChunkMsg where
  "AudioOutputChunkMsg_default =
     \<lparr> streamId = - 1, audioBuffer = nullptr, audioLength = 0 \<rparr>"

record UserMsg =
  path :: string
  contentType :: string
  buffer :: uint8_ptr
  size :: size_t

subsection \<open>The member initialisers of the status fields\<close>




subsection \<open>The family of messages and the \<^verbatim>\<open>JsonMsg\<close> base\<close>

text \<open>
  The structs of the header that are messages, one alternative for each, so that a
  statement can range over all of them.
\<close>

datatype Message =
    TurnStart TurnStartMsg
  | TurnEnd TurnEndMsg
  | SpeechStartDetected SpeechStartDetectedMsg
  | SpeechEndDetected SpeechEndDetectedMsg
  | SpeechHypothesis SpeechHypothesisMsg
  | SpeechFragment SpeechFragmentMsg
  | SpeechPhrase SpeechPhraseMsg
  | TranslationHypothesis TranslationHypothesisMsg
  | TranslationPhrase TranslationPhraseMsg
  | AudioOutputChunk AudioOutputChunkMsg
  | UserMessage UserMsg

text \<open>
  The conversion of a message to its \<^verbatim>\<open>JsonMsg\<close> base subobject. It exists for the
  structs whose base-class list reaches \<^verbatim>\<open>JsonMsg\<close> (directly, through \<^verbatim>\<open>SpeechMsg\<close>,
  or through \<^verbatim>\<open>SpeechHypothesisMsg\<close> and \<^verbatim>\<open>TranslationHypothesisMsg\<close>);
  \<^verbatim>\<open>AudioOutputChunkMsg\<close> and \<^verbatim>\<open>UserMsg\<close> are declared without a base.
\<close>

fun as_JsonMsg :: "Message \<Rightarrow> JsonMsg option" where
  "as_JsonMsg (TurnStart m) = Some (JsonMsg.truncate m)"
| "as_JsonMsg (TurnEnd m) = Some (JsonMsg.truncate m)"
| "as_JsonMsg (SpeechStartDetected m) = Some (JsonMsg.truncate m)"
| "as_JsonMsg (SpeechEndDetected m) = Some (JsonMsg.truncate m)"
| "as_JsonMsg (SpeechHypothesis m) = Some (JsonMsg.truncate m)"
| "as_JsonMsg (SpeechFragment m) = Some (JsonMsg.truncate m)"
| "as_JsonMsg (SpeechPhrase m) = Some (JsonMsg.truncate m)"
| "as_JsonMsg (TranslationHypothesis m) = Some (JsonMsg.truncate m)"
| "as_JsonMsg (TranslationPhrase m) = Some (JsonMsg.truncate m)"
| "as_JsonMsg (AudioOutputChunk m) = None"
| "as_JsonMsg (UserMessage m) = None"

text \<open>The text payload of a message: the \<^verbatim>\<open>json\<close> field of its base, where it has one.\<close>

definition json_of :: "Message \<Rightarrow> wstring option" where
  "json_of m = map_option json (as_JsonMsg m)"

subsection \<open>The specification's statements, as definitions\<close>

text \<open>
  The specification's data invariant of a translation result, in its words: the
  mapping is non-empty only when the status is Success. The header states no such
  condition; the predicate is what the values of the header are compared with.
\<close>

definition translations_only_on_success :: "TranslationResult \<Rightarrow> bool" where
  "translations_only_on_success r =
     (translations r \<noteq> Map.empty \<longrightarrow> translationStatus r = TranslationStatus.Success)"

text \<open>
  Modelled from the spec: the error classifier is not part of the header, which only
  declares \<^verbatim>\<open>ErrorCode\<close>. The specification names the members of its two classes;
  they are kept as the identifiers it lists, in its order.
\<close>

definition Transient :: "string list" where
  "Transient = [''ConnectionError'', ''ServiceUnavailable'', ''TooManyRequests'']"

definition Permanent :: "string list" where
  "Permanent =
     [''AuthenticationError'', ''BadRequest'', ''Forbidden'', ''RuntimeError'',
      ''ServiceError'', ''InvalidMessage'']"

section \<open>Properties\<close>

subsection \<open>Unfolding the constructors\<close>

lemmas ctor_defs =
  JsonMsg_ctor_def JsonMsg_default_def TurnEndMsg_ctor_def TurnStartMsg_ctor_def
  SpeechStartDetectedMsg_ctor_def SpeechEndDetectedMsg_ctor_def
  SpeechMsg_ctor_def SpeechMsg_default_def
  SpeechHypothesisMsg_ctor_def SpeechFragmentMsg_ctor_def
  SpeechPhraseMsg_ctor_def SpeechPhraseMsg_default_def
  TranslationHypothesisMsg_ctor_def TranslationPhraseMsg_ctor_def

lemmas record_defs =
  JsonMsg.defs TurnStartMsg.defs SpeechStartDetectedMsg.defs SpeechEndDetectedMsg.defs
  SpeechMsg.defs SpeechHypothesisMsg.defs SpeechFragmentMsg.defs SpeechPhraseMsg.defs
  TranslationHypothesisMsg.defs TranslationPhraseMsg.defs

text \<open>Each constructor stores every argument in the field of its mem-initialiser.\<close>

lemma SpeechMsg_ctor_fields:
  "json (SpeechMsg_ctor content offset' duration') = content"
  "SpeechMsg.offset (SpeechMsg_ctor content offset' duration') = offset'"
  "duration (SpeechMsg_ctor content offset' duration') = duration'"
  by (simp_all add: ctor_defs record_defs)

lemma SpeechHypothesisMsg_ctor_fields:
  "json (SpeechHypothesisMsg_ctor content offset' duration' text') = content"
  "SpeechMsg.offset (SpeechHypothesisMsg_ctor content offset' duration' text') = offset'"
  "duration (SpeechHypothesisMsg_ctor content offset' duration' text') = duration'"
  "SpeechHypothesisMsg.text (SpeechHypothesisMsg_ctor content offset' duration' text') = text'"
  by (simp_all add: ctor_defs record_defs)

lemma SpeechFragmentMsg_ctor_fields:
  "json (SpeechFragmentMsg_ctor content offset' duration' text') = content"
  "SpeechMsg.offset (SpeechFragmentMsg_ctor content offset' duration' text') = offset'"
  "duration (SpeechFragmentMsg_ctor content offset' duration' text') = duration'"
  "SpeechFragmentMsg.text (SpeechFragmentMsg_ctor content offset' duration' text') = text'"
  by (simp_all add: ctor_defs record_defs)

lemma SpeechPhraseMsg_ctor_fields:
  "json (SpeechPhraseMsg_ctor content offset' duration' status text') = content"
  "SpeechMsg.offset (SpeechPhraseMsg_ctor content offset' duration' status text') = offset'"
  "duration (SpeechPhraseMsg_ctor content offset' duration' status text') = duration'"
  "SpeechPhraseMsg.recognitionStatus
     (SpeechPhraseMsg_ctor content offset' duration' status text') = status"
  "displayText (SpeechPhraseMsg_ctor content offset' duration' status text') = text'"
  by (simp_all add: ctor_defs record_defs)

lemma TranslationHypothesisMsg_ctor_fields:
  "json (TranslationHypothesisMsg_ctor content offset' duration' text' r) = content"
  "SpeechMsg.offset (TranslationHypothesisMsg_ctor content offset' duration' text' r) = offset'"
  "duration (TranslationHypothesisMsg_ctor content offset' duration' text' r) = duration'"
  "SpeechHypothesisMsg.text
     (TranslationHypothesisMsg_ctor content offset' duration' text' r) = text'"
  "translation (TranslationHypothesisMsg_ctor content offset' duration' text' r) = r"
  by (simp_all add: ctor_defs record_defs)

lemma TranslationPhraseMsg_ctor_fields:
  "json (TranslationPhraseMsg_ctor content offset' duration' text' r status) = content"
  "SpeechMsg.offset
     (TranslationPhraseMsg_ctor content offset' duration' text' r status) = offset'"
  "duration (TranslationPhraseMsg_ctor content offset' duration' text' r status) = duration'"
  "SpeechHypothesisMsg.text
     (TranslationPhraseMsg_ctor content offset' duration' text' r status) = text'"
  "translation (TranslationPhraseMsg_ctor content offset' duration' text' r status) = r"
  "TranslationPhraseMsg.recognitionStatus
     (TranslationPhraseMsg_ctor content offset' duration' text' r status) = status"
  by (simp_all add: ctor_defs record_defs)

subsection \<open>The enumerators of \<^verbatim>\<open>ErrorCode\<close>\<close>

lemma ErrorCode_enumerators_all: "UNIV = set ErrorCode_enumerators"
proof -
  have "e \<in> set ErrorCode_enumerators" for e
    by (cases e) (simp_all add: ErrorCode_enumerators_def)
  then show ?thesis by blast
qed

lemma ErrorCode_value_range: "1 \<le> ErrorCode_value e \<and> ErrorCode_value e \<le> 8"
  by (cases e) simp_all

lemma ErrorCode_name_inj: "ErrorCode_name e = ErrorCode_name e' \<Longrightarrow> e = e'"
  by (cases e; cases e') simp_all

lemma ErrorCode_name_not_InvalidMessage: "ErrorCode_name e \<noteq> ''InvalidMessage''"
  by (cases e) simp_all

lemma range_ErrorCode_name:
  "range ErrorCode_name = set (map ErrorCode_name ErrorCode_enumerators)"
  by (simp only: ErrorCode_enumerators_all set_map)

subsection \<open>The claims\<close>

text \<open>
  C1 (as stated, refuted). The claim says that in every TranslationResult, also the one
  embedded in a translation message, the translations mapping is non-empty only when
  the translation status is Success, and that a TranslationPhrase with status Error
  never has a non-empty mapping. The struct is an aggregate and the constructors store
  what they are given: the phrase built from a result with status Error and the
  mapping en -> hi, with recognition status Error, has both statuses Error and a
  non-empty mapping.
\<close>

theorem TranslationPhraseMsg_Error_with_translations:
  "\<not> translations_only_on_success
       (translation (TranslationPhraseMsg_ctor [] 0 0 []
          \<lparr> translationStatus = TranslationStatus.Error, failureReason = [],
            translations = [[0x65, 0x6E] \<mapsto> [0x68, 0x69]] \<rparr>
          RecognitionStatus.Error))
   \<and> translationStatus
       (translation (TranslationPhraseMsg_ctor [] 0 0 []
          \<lparr> translationStatus = TranslationStatus.Error, failureReason = [],
            translations = [[0x65, 0x6E] \<mapsto> [0x68, 0x69]] \<rparr>
          RecognitionStatus.Error)) = TranslationStatus.Error
   \<and> TranslationPhraseMsg.recognitionStatus
       (TranslationPhraseMsg_ctor [] 0 0 []
          \<lparr> translationStatus = TranslationStatus.Error, failureReason = [],
            translations = [[0x65, 0x6E] \<mapsto> [0x68, 0x69]] \<rparr>
          RecognitionStatus.Error) = RecognitionStatus.Error
   \<and> translations
       (translation (TranslationPhraseMsg_ctor [] 0 0 []
          \<lparr> translationStatus = TranslationStatus.Error, failureReason = [],
            translations = [[0x65, 0x6E] \<mapsto> [0x68, 0x69]] \<rparr>
          RecognitionStatus.Error)) [0x65, 0x6E] = Some [0x68, 0x69]"
  by (simp add: translations_only_on_success_def TranslationPhraseMsg_ctor_fields)

text \<open>
  C1 (amended). The constructors of the translation messages store the supplied
  TranslationResult unchanged, so the embedded mapping is non-empty only when the
  translation status is Success whenever that holds of the result supplied at
  construction; the default TranslationResult (status Error, empty mapping) satisfies
  it.
\<close>

theorem TranslationResult_invariant_kept:
  "translation (TranslationHypothesisMsg_ctor content offset' duration' text' r) = r
   \<and> translation (TranslationPhraseMsg_ctor content offset' duration' text' r status) = r
   \<and> translations_only_on_success TranslationResult_default
   \<and> (translations_only_on_success r \<longrightarrow>
        translations_only_on_success
          (translation (TranslationHypothesisMsg_ctor content offset' duration' text' r))
        \<and> translations_only_on_success
          (translation (TranslationPhraseMsg_ctor content offset' duration' text' r status)))"
  by (simp add: TranslationHypothesisMsg_ctor_fields TranslationPhraseMsg_ctor_fields
      translations_only_on_success_def TranslationResult_default_def)

theorem TranslationResult_invariant_kept_witness:
  "translations_only_on_success
     \<lparr> translationStatus = TranslationStatus.Success, failureReason = [],
       translations = [[0x65, 0x6E] \<mapsto> [0x68, 0x69]] \<rparr>
   \<and> translations_only_on_success
       (translation (TranslationPhraseMsg_ctor [0x7B, 0x7D] 10 20 [0x68, 0x69]
          \<lparr> translationStatus = TranslationStatus.Success, failureReason = [],
            translations = [[0x65, 0x6E] \<mapsto> [0x68, 0x69]] \<rparr>
          RecognitionStatus.Success))
   \<and> translations
       (translation (TranslationPhraseMsg_ctor [0x7B, 0x7D] 10 20 [0x68, 0x69]
          \<lparr> translationStatus = TranslationStatus.Success, failureReason = [],
            translations = [[0x65, 0x6E] \<mapsto> [0x68, 0x69]] \<rparr>
          RecognitionStatus.Success)) \<noteq> Map.empty"
proof -
  have h: "translations_only_on_success
     \<lparr> translationStatus = TranslationStatus.Success, failureReason = [],
       translations = [[0x65, 0x6E] \<mapsto> [0x68, 0x69]] \<rparr>"
    by (simp add: translations_only_on_success_def)
  from h TranslationResult_invariant_kept
    [of "[0x7B, 0x7D]" 10 20 "[0x68, 0x69]"
        "\<lparr> translationStatus = TranslationStatus.Success, failureReason = [],
           translations = [[0x65, 0x6E] \<mapsto> [0x68, 0x69]] \<rparr>"
        RecognitionStatus.Success]
  show ?thesis by simp
qed



text \<open>
  C3 (as stated, refuted). The claim says that every value listed in the two classes is
  a member of ErrorCode. InvalidMessage is listed as Permanent and is the identifier of
  no enumerator of ErrorCode.
\<close>

theorem InvalidMessage_not_an_ErrorCode:
  "''InvalidMessage'' \<in> set Permanent \<and> ''InvalidMessage'' \<notin> range ErrorCode_name"
proof
  show "''InvalidMessage'' \<in> set Permanent"
    by (simp add: Permanent_def)
  show "''InvalidMessage'' \<notin> range ErrorCode_name"
  proof
    assume "''InvalidMessage'' \<in> range ErrorCode_name"
    then obtain e where "ErrorCode_name e = ''InvalidMessage''"
      by auto
    then show False
      using ErrorCode_name_not_InvalidMessage [of e] by simp
  qed
qed

text \<open>
  C3 (amended). Every enumerator of ErrorCode is listed in exactly one of the two
  classes, and the listed values other than InvalidMessage are exactly the enumerators
  of ErrorCode.
\<close>

theorem ErrorCode_classes_partition:
  "(ErrorCode_name e \<in> set Transient) \<noteq> (ErrorCode_name e \<in> set Permanent)
   \<and> set Transient \<union> (set Permanent - {''InvalidMessage''}) = range ErrorCode_name"
proof
  show "(ErrorCode_name e \<in> set Transient) \<noteq> (ErrorCode_name e \<in> set Permanent)"
    by (cases e) (simp_all add: Transient_def Permanent_def)
  show "set Transient \<union> (set Permanent - {''InvalidMessage''}) = range ErrorCode_name"
    unfolding range_ErrorCode_name
    by (auto simp: Transient_def Permanent_def ErrorCode_enumerators_def)
qed

text \<open>
  C4. Constructing a speech phrase with status Success and an empty display text is
  permitted: the constructor is total (it validates nothing), and for every content,
  offset and duration the value it builds has status Success, the empty display text
  and the other fields as supplied.
\<close>

theorem SpeechPhraseMsg_Success_empty_displayText:
  "SpeechPhraseMsg.recognitionStatus
     (SpeechPhraseMsg_ctor content offset' duration' RecognitionStatus.Success [])
     = RecognitionStatus.Success
   \<and> displayText
       (SpeechPhraseMsg_ctor content offset' duration' RecognitionStatus.Success []) = []
   \<and> json (SpeechPhraseMsg_ctor content offset' duration' RecognitionStatus.Success [])
       = content
   \<and> SpeechMsg.offset
       (SpeechPhraseMsg_ctor content offset' duration' RecognitionStatus.Success []) = offset'
   \<and> duration
       (SpeechPhraseMsg_ctor content offset' duration' RecognitionStatus.Success []) = duration'"
  by (simp add: SpeechPhraseMsg_ctor_fields)

text \<open>
  C5. A translation phrase carries its own status: for every status argument s and
  translation payload r, the recognition status of the constructed phrase is s, held in
  a field of its own beside the embedded translation, which is r with its translation
  status unchanged, whatever the two statuses are.
\<close>

theorem TranslationPhraseMsg_own_status:
  "TranslationPhraseMsg.recognitionStatus
     (TranslationPhraseMsg_ctor content offset' duration' text' r s) = s
   \<and> translationStatus
       (translation (TranslationPhraseMsg_ctor content offset' duration' text' r s))
       = translationStatus r
   \<and> TranslationPhraseMsg.recognitionStatus
       (TranslationPhraseMsg_ctor content offset' duration' text'
          (r\<lparr> translationStatus := ts \<rparr>) s) = s"
  by (simp add: TranslationPhraseMsg_ctor_fields)

text \<open>
  C6. Every text-bodied message carries its text payload through the JsonMsg base: for
  turn.start, speech.startDetected, speech.endDetected, speech.hypothesis,
  speech.fragment, speech.phrase, translation.hypothesis and translation.phrase the
  json field of the constructed message is the content given to the constructor, and for
  turn.end, whose constructor takes no content, it is the empty string. The binary
  messages (audio output chunk, user message) have no JsonMsg base and so no such
  payload.
\<close>

theorem text_messages_carry_json:
  "json_of (TurnStart (TurnStartMsg_ctor content tag)) = Some content
   \<and> json_of (TurnEnd TurnEndMsg_ctor) = Some []
   \<and> json_of (SpeechStartDetected (SpeechStartDetectedMsg_ctor content offset')) = Some content
   \<and> json_of (SpeechEndDetected (SpeechEndDetectedMsg_ctor content offset')) = Some content
   \<and> json_of (SpeechHypothesis (SpeechHypothesisMsg_ctor content offset' duration' text'))
       = Some content
   \<and> json_of (SpeechFragment (SpeechFragmentMsg_ctor content offset' duration' text'))
       = Some content
   \<and> json_of (SpeechPhrase (SpeechPhraseMsg_ctor content offset' duration' status text'))
       = Some content
   \<and> json_of (TranslationHypothesis
        (TranslationHypothesisMsg_ctor content offset' duration' text' r)) = Some content
   \<and> json_of (TranslationPhrase
        (TranslationPhraseMsg_ctor content offset' duration' text' r status)) = Some content
   \<and> as_JsonMsg (AudioOutputChunk a) = None
   \<and> json_of (AudioOutputChunk a) = None
   \<and> as_JsonMsg (UserMessage u) = None
   \<and> json_of (UserMessage u) = None"
  by (simp add: json_of_def ctor_defs record_defs)

text \<open>
  C7. Offsets and durations are 64-bit unsigned tick counts: the duration (and the
  offset) of every speech.hypothesis and speech.fragment message is a value from 0 up to
  2^64 - 1, and the constructors store the duration they are given.
\<close>

theorem Speech_duration_unsigned_64:
  "duration (SpeechHypothesisMsg_ctor content offset' duration' text') = duration'
   \<and> duration (SpeechFragmentMsg_ctor content offset' duration' text') = duration'
   \<and> 0 \<le> uint (duration (h :: SpeechHypothesisMsg)) \<and> uint (duration h) < 2 ^ 64
   \<and> 0 \<le> uint (duration (f :: SpeechFragmentMsg)) \<and> uint (duration f) < 2 ^ 64
   \<and> 0 \<le> uint (SpeechMsg.offset h) \<and> uint (SpeechMsg.offset h) < 2 ^ 64
   \<and> 0 \<le> uint (SpeechMsg.offset f) \<and> uint (SpeechMsg.offset f) < 2 ^ 64
   \<and> 0 \<le> uint (duration (SpeechHypothesisMsg_ctor content offset' duration' text'))
   \<and> 0 \<le> uint (duration (SpeechFragmentMsg_ctor content offset' duration' text'))"
proof -
  have bound: "uint w < 2 ^ 64" for w :: "64 word"
    using uint_lt2p [of w] by simp
  show ?thesis
    using bound [of "duration h"] bound [of "duration f"]
      bound [of "SpeechMsg.offset h"] bound [of "SpeechMsg.offset f"]
    by (simp add: SpeechHypothesisMsg_ctor_fields SpeechFragmentMsg_ctor_fields)
qed

text \<open>
  C8. A turn.end message has an empty body: the value the only constructor of
  \<^verbatim>\<open>TurnEndMsg\<close> builds has the empty string as its json text payload.
\<close>

theorem TurnEndMsg_json_empty:
  "json TurnEndMsg_ctor = []"
  by (simp add: TurnEndMsg_ctor_def JsonMsg_ctor_def)

text \<open>
  C10. A default-constructed speech phrase has recognition status Error, not Success,
  and an empty display text (its json is empty, its offset and duration are 0).
\<close>

theorem SpeechPhraseMsg_default_Error:
  "SpeechPhraseMsg.recognitionStatus SpeechPhraseMsg_default = RecognitionStatus.Error
   \<and> SpeechPhraseMsg.recognitionStatus SpeechPhraseMsg_default \<noteq> RecognitionStatus.Success
   \<and> displayText SpeechPhraseMsg_default = []
   \<and> json SpeechPhraseMsg_default = []
   \<and> SpeechMsg.offset SpeechPhraseMsg_default = 0
   \<and> duration SpeechPhraseMsg_default = 0"
  by (simp add: ctor_defs record_defs)

end
